theory Spec2Isabelle
  imports Complex_Main
begin

section \<open>JavaScript values, requests and responses\<close>

text \<open>
  The handlers of \<^verbatim>\<open>server.js\<close> read fields of the parsed JSON body, test them with
  \<^verbatim>\<open>!x\<close>, hand them to the database driver and answer with \<^verbatim>\<open>res.status(n).json(v)\<close>.
  A value is therefore modelled as a JavaScript value; \<open>JUndefined\<close> is what reading an
  absent field yields, \<open>JDate\<close> is the driver's value of a timestamp column.
\<close>

datatype jsval =
    JUndefined
  | JNull
  | JBool bool
  | JNum rat
  | JStr string
  | JDate nat
  | JArr "jsval list"
  | JObj "(string \<times> jsval) list"

text \<open>The truthiness that \<^verbatim>\<open>!x\<close> negates.\<close>

fun truthy :: "jsval \<Rightarrow> bool" where
  "truthy JUndefined = False"
| "truthy JNull = False"
| "truthy (JBool b) = b"
| "truthy (JNum n) = (n \<noteq> 0)"
| "truthy (JStr s) = (s \<noteq> [])"
| "truthy (JDate t) = True"
| "truthy (JArr xs) = True"
| "truthy (JObj kvs) = True"

text \<open>An error object as the \<^verbatim>\<open>catch\<close> blocks see it: \<^verbatim>\<open>error.code\<close> and \<^verbatim>\<open>error.message\<close>.\<close>

datatype js_error = Error (err_code: "string option") (err_message: string)

text \<open>The payload the login routes sign, and what \<^verbatim>\<open>jwt.verify\<close> decodes.\<close>

record claims =
  c_id :: int
  c_username :: string
  c_role :: string

record decoded = claims +
  iat :: nat
  exp :: nat

record request =
  authorization :: "string option"
  body :: "(string \<times> jsval) list"
  params :: "(string \<times> string) list"
  req_admin :: "decoded option"

record response =
  status :: nat
  payload :: jsval

text \<open>\<^verbatim>\<open>const { k } = req.body\<close> and \<^verbatim>\<open>const { k } = req.params\<close>.\<close>

definition field :: "request \<Rightarrow> string \<Rightarrow> jsval" where
  "field req k = (case map_of (body req) k of None \<Rightarrow> JUndefined | Some v \<Rightarrow> v)"

definition param :: "request \<Rightarrow> string \<Rightarrow> jsval" where
  "param req k = (case map_of (params req) k of None \<Rightarrow> JUndefined | Some v \<Rightarrow> JStr v)"

text \<open>\<^verbatim>\<open>res.status(n).json(v)\<close>; \<^verbatim>\<open>res.json(v)\<close> alone answers 200.\<close>

definition status_json :: "nat \<Rightarrow> jsval \<Rightarrow> response" where
  "status_json n v = \<lparr>status = n, payload = v\<rparr>"

definition json :: "jsval \<Rightarrow> response" where
  "json v = status_json 200 v"

definition error_body :: "string \<Rightarrow> jsval" where
  "error_body msg = JObj [(''error'', JStr msg)]"

text \<open>\<^verbatim>\<open>result.rows[0]\<close>: \<^verbatim>\<open>undefined\<close> on an empty result.\<close>

definition first_row :: "jsval list \<Rightarrow> jsval" where
  "first_row rows = (case rows of [] \<Rightarrow> JUndefined | r # _ \<Rightarrow> r)"

section \<open>External collaborators\<close>

text \<open>
  The password hasher, the token issuer and the database driver's conversions are
  libraries outside the repository. They are parameters of the model:
  \<^item> \<open>toString\<close>: the text the driver sends for a value that is neither a string nor null;
  \<^item> \<open>template\<close>: the text a template literal gives a value that is not a string;
  \<^item> \<open>int4in\<close>: the store's reading of a text parameter as an integer;
  \<^item> \<open>hash_fn salt p\<close> and \<open>verify_fn p h\<close>: the salted hash and its check on strings;
  \<^item> \<open>JWT_SECRET\<close>: \<^verbatim>\<open>process.env.JWT_SECRET\<close>;
  \<^item> \<open>jwt_sign payload secret expiresIn now\<close> and \<open>jwt_verify token secret now\<close>.
\<close>

record deps =
  toString :: "jsval \<Rightarrow> string"
  template :: "jsval \<Rightarrow> string"
  int4in :: "string \<Rightarrow> int option"
  hash_fn :: "string \<Rightarrow> string \<Rightarrow> string"
  verify_fn :: "string \<Rightarrow> string \<Rightarrow> bool"
  JWT_SECRET :: "string option"
  jwt_sign :: "claims \<Rightarrow> string option \<Rightarrow> string \<Rightarrow> nat \<Rightarrow> js_error + string"
  jwt_verify :: "string \<Rightarrow> string option \<Rightarrow> nat \<Rightarrow> js_error + decoded"

text \<open>
  What the environment decides for one call of a handler: the salt the hasher draws, the
  value the store's \<^verbatim>\<open>SERIAL\<close> column takes on an insert, the clock, and whether the
  store fails the call's query for a reason of its own (an outage, a missing table).
\<close>

record call =
  salt :: string
  serial :: int
  now :: nat
  fault :: "js_error option"

text \<open>
  \<^verbatim>\<open>bcrypt.hash(s, 10)\<close> and \<^verbatim>\<open>bcrypt.compare(s, hash)\<close> of bcryptjs reject the promise
  with "Illegal arguments" unless \<^verbatim>\<open>s\<close> is a string.
\<close>

definition bcrypt_hash :: "deps \<Rightarrow> call \<Rightarrow> jsval \<Rightarrow> js_error + string" where
  "bcrypt_hash D E s =
     (case s of JStr p \<Rightarrow> Inr (hash_fn D (salt E) p)
      | _ \<Rightarrow> Inl (Error None ''Illegal arguments''))"

definition bcrypt_compare :: "deps \<Rightarrow> jsval \<Rightarrow> string \<Rightarrow> js_error + bool" where
  "bcrypt_compare D s h =
     (case s of JStr p \<Rightarrow> Inr (verify_fn D p h)
      | _ \<Rightarrow> Inl (Error None ''Illegal arguments''))"

text \<open>
  The driver's conversion of a query parameter: \<^verbatim>\<open>null\<close> and \<^verbatim>\<open>undefined\<close> become
  SQL NULL (\<open>None\<close>), a string is sent as it is, anything else as its text.
\<close>

definition prepareValue :: "deps \<Rightarrow> jsval \<Rightarrow> string option" where
  "prepareValue D v =
     (case v of JUndefined \<Rightarrow> None | JNull \<Rightarrow> None | JStr s \<Rightarrow> Some s
      | _ \<Rightarrow> Some (toString D v))"

section \<open>The store\<close>

text \<open>The tables of the \<^verbatim>\<open>CREATE TABLE\<close> statements; a nullable column is an option.\<close>

record user_row =
  u_id :: int
  u_username :: string
  u_password :: string
  u_role :: string

record admin_row =
  a_id :: int
  a_username :: string
  a_password :: string
  a_role :: string

record request_row =
  r_id :: int
  r_username :: string
  r_product_name :: string
  r_quantity :: int
  r_request_date :: "nat option"
  r_status :: "string option"

record db =
  users :: "user_row list"
  admin :: "admin_row list"
  requests :: "request_row list"

definition unique_violation :: js_error where
  "unique_violation = Error (Some ''23505'') ''duplicate key value violates unique constraint''"

definition not_null_violation :: js_error where
  "not_null_violation = Error (Some ''23502'') ''null value violates not-null constraint''"

definition invalid_text_representation :: js_error where
  "invalid_text_representation = Error (Some ''22P02'') ''invalid input syntax for type integer''"

text \<open>\<^verbatim>\<open>await pool.query(text, values)\<close>: the statement runs unless the store fails the call.\<close>

definition pool_query :: "call \<Rightarrow> (db \<Rightarrow> js_error + 'r \<times> db) \<Rightarrow> db \<Rightarrow> js_error + 'r \<times> db" where
  "pool_query E stmt s = (case fault E of Some e \<Rightarrow> Inl e | None \<Rightarrow> stmt s)"

definition user_returning :: "user_row \<Rightarrow> jsval" where
  "user_returning r =
     JObj [(''id'', JNum (of_int (u_id r))), (''username'', JStr (u_username r)),
           (''role'', JStr (u_role r))]"

text \<open>
  \<^verbatim>\<open>INSERT INTO users (username, password, role) VALUES ($1, $2, $3)
  RETURNING id, username, role\<close>, with \<^verbatim>\<open>username TEXT UNIQUE NOT NULL\<close>.
\<close>

definition insert_users ::
  "call \<Rightarrow> string option \<Rightarrow> string option \<Rightarrow> string option \<Rightarrow> db \<Rightarrow> js_error + jsval list \<times> db" where
  "insert_users E username password role s =
     (case (username, password, role) of
        (Some u, Some p, Some r) \<Rightarrow>
          if u \<in> set (map u_username (users s)) then Inl unique_violation
          else
            let row = \<lparr>u_id = serial E, u_username = u, u_password = p, u_role = r\<rparr>
            in Inr ([user_returning row], s\<lparr>users := users s @ [row]\<rparr>)
      | _ \<Rightarrow> Inl not_null_violation)"

text \<open>\<^verbatim>\<open>SELECT * FROM users WHERE username = $1\<close>; a NULL parameter matches no row.\<close>

definition select_users_by_username :: "string option \<Rightarrow> db \<Rightarrow> js_error + user_row list \<times> db" where
  "select_users_by_username username s =
     (case username of
        None \<Rightarrow> Inr ([], s)
      | Some u \<Rightarrow> Inr (filter (\<lambda>r. u_username r = u) (users s), s))"

section \<open>User registration and login\<close>

text \<open>\<^verbatim>\<open>app.post('/api/auth/register', ...)\<close>\<close>

definition register_catch :: "js_error \<Rightarrow> response" where
  "register_catch error =
     (if err_code error = Some ''23505''
      then status_json 409 (error_body ''Username already exists'')
      else status_json 500 (error_body ''Internal server error''))"

definition register :: "deps \<Rightarrow> call \<Rightarrow> request \<Rightarrow> db \<Rightarrow> response \<times> db" where
  "register D E req s =
     (let username = field req ''username'';
          password = field req ''password'';
          role = field req ''role''
      in if \<not> truthy username \<or> \<not> truthy password \<or> \<not> truthy role
         then (status_json 400 (error_body ''Missing username, password, or role''), s)
         else
           (case bcrypt_hash D E password of
              Inl error \<Rightarrow> (register_catch error, s)
            | Inr hashedPassword \<Rightarrow>
                (case pool_query E
                        (insert_users E (prepareValue D username)
                           (prepareValue D (JStr hashedPassword)) (prepareValue D role)) s of
                   Inl error \<Rightarrow> (register_catch error, s)
                 | Inr (rows, s') \<Rightarrow>
                     (status_json 201
                        (JObj [(''message'', JStr ''User registered successfully!''),
                               (''user'', first_row rows)]), s'))))"

text \<open>\<^verbatim>\<open>app.post('/api/auth/login', ...)\<close>\<close>

definition internal_error :: response where
  "internal_error = status_json 500 (error_body ''Internal server error'')"

definition login :: "deps \<Rightarrow> call \<Rightarrow> request \<Rightarrow> db \<Rightarrow> response \<times> db" where
  "login D E req s =
     (let username = field req ''username'';
          password = field req ''password''
      in if \<not> truthy username \<or> \<not> truthy password
         then (status_json 400 (error_body ''Missing username or password''), s)
         else
           (case pool_query E (select_users_by_username (prepareValue D username)) s of
              Inl error \<Rightarrow> (internal_error, s)
            | Inr (rows, s') \<Rightarrow>
                (case rows of
                   [] \<Rightarrow> (status_json 401 (error_body ''Invalid username or password''), s')
                 | user # _ \<Rightarrow>
                     (case bcrypt_compare D password (u_password user) of
                        Inl error \<Rightarrow> (internal_error, s')
                      | Inr isValidPassword \<Rightarrow>
                          if \<not> isValidPassword
                          then (status_json 401 (error_body ''Invalid username or password''), s')
                          else
                            (case jwt_sign D
                                    \<lparr>c_id = u_id user, c_username = u_username user,
                                     c_role = u_role user\<rparr>
                                    (JWT_SECRET D) ''1h'' (now E) of
                               Inl error \<Rightarrow> (internal_error, s')
                             | Inr token \<Rightarrow>
                                 (json (JObj [(''message'', JStr ''Login successful''),
                                              (''token'', JStr token),
                                              (''username'', JStr (u_username user))]), s'))))))"

section \<open>Requests\<close>

definition null_or :: "('a \<Rightarrow> jsval) \<Rightarrow> 'a option \<Rightarrow> jsval" where
  "null_or f x = (case x of None \<Rightarrow> JNull | Some v \<Rightarrow> f v)"

definition request_json :: "request_row \<Rightarrow> jsval" where
  "request_json r =
     JObj [(''id'', JNum (of_int (r_id r))), (''username'', JStr (r_username r)),
           (''product_name'', JStr (r_product_name r)),
           (''quantity'', JNum (of_int (r_quantity r))),
           (''request_date'', null_or JDate (r_request_date r)),
           (''status'', null_or JStr (r_status r))]"

text \<open>
  \<^verbatim>\<open>INSERT INTO requests (username, product_name, quantity) VALUES ($1, $2, $3)
  RETURNING *\<close>. The store reads the third parameter as an integer and rejects a text
  that is none; \<^verbatim>\<open>request_date\<close> and \<^verbatim>\<open>status\<close> take their defaults.
\<close>

definition insert_requests ::
  "deps \<Rightarrow> call \<Rightarrow> string option \<Rightarrow> string option \<Rightarrow> string option \<Rightarrow> db \<Rightarrow> js_error + jsval list \<times> db" where
  "insert_requests D E username product_name quantity s =
     (case map_option (int4in D) quantity of
        Some None \<Rightarrow> Inl invalid_text_representation
      | None \<Rightarrow> Inl not_null_violation
      | Some (Some q) \<Rightarrow>
          (case (username, product_name) of
             (Some u, Some p) \<Rightarrow>
               let row = \<lparr>r_id = serial E, r_username = u, r_product_name = p, r_quantity = q,
                          r_request_date = Some (now E), r_status = Some ''Pending''\<rparr>
               in Inr ([request_json row], s\<lparr>requests := requests s @ [row]\<rparr>)
           | _ \<Rightarrow> Inl not_null_violation))"

text \<open>\<^verbatim>\<open>SELECT * FROM requests;\<close>\<close>

definition select_requests :: "db \<Rightarrow> js_error + jsval list \<times> db" where
  "select_requests s = Inr (map request_json (requests s), s)"

text \<open>
  \<^verbatim>\<open>UPDATE requests SET status = $1 WHERE id = $2 RETURNING *\<close>. The store reads the
  second parameter as an integer and rejects a text that is none; a NULL matches no row.
\<close>

definition update_requests_status ::
  "deps \<Rightarrow> string option \<Rightarrow> string option \<Rightarrow> db \<Rightarrow> js_error + jsval list \<times> db" where
  "update_requests_status D new_status id_text s =
     (case map_option (int4in D) id_text of
        Some None \<Rightarrow> Inl invalid_text_representation
      | None \<Rightarrow> Inr ([], s)
      | Some (Some n) \<Rightarrow>
          let rows' = map (\<lambda>r. if r_id r = n then r\<lparr>r_status := new_status\<rparr> else r) (requests s)
          in Inr (map request_json (filter (\<lambda>r. r_id r = n) rows'), s\<lparr>requests := rows'\<rparr>))"

text \<open>\<^verbatim>\<open>app.post('/api/requests', ...)\<close>\<close>

definition post_requests :: "deps \<Rightarrow> call \<Rightarrow> request \<Rightarrow> db \<Rightarrow> response \<times> db" where
  "post_requests D E req s =
     (let username = field req ''username'';
          product_name = field req ''product_name'';
          quantity = field req ''quantity''
      in if \<not> truthy username \<or> \<not> truthy product_name \<or> \<not> truthy quantity
         then (status_json 400 (error_body ''Missing username, product name, or quantity''), s)
         else
           (case pool_query E
                   (insert_requests D E (prepareValue D username) (prepareValue D product_name)
                      (prepareValue D quantity)) s of
              Inl error \<Rightarrow> (internal_error, s)
            | Inr (rows, s') \<Rightarrow>
                (status_json 201
                   (JObj [(''message'', JStr ''Request submitted successfully!''),
                          (''request'', first_row rows)]), s')))"

text \<open>\<^verbatim>\<open>app.get('/api/requests', ...)\<close>\<close>

definition get_requests :: "deps \<Rightarrow> call \<Rightarrow> request \<Rightarrow> db \<Rightarrow> response \<times> db" where
  "get_requests D E req s =
     (case pool_query E select_requests s of
        Inl error \<Rightarrow> (internal_error, s)
      | Inr (rows, s') \<Rightarrow> (status_json 200 (JArr rows), s'))"

text \<open>\<^verbatim>\<open>app.patch('/api/requests/:id', ...)\<close>\<close>

definition patch_requests :: "deps \<Rightarrow> call \<Rightarrow> request \<Rightarrow> db \<Rightarrow> response \<times> db" where
  "patch_requests D E req s =
     (let id = param req ''id'';
          new_status = field req ''status''
      in if \<not> truthy new_status
         then (status_json 400 (error_body ''Status is required''), s)
         else
           (case pool_query E
                   (update_requests_status D (prepareValue D new_status) (prepareValue D id)) s of
              Inl error \<Rightarrow> (internal_error, s)
            | Inr (rows, s') \<Rightarrow>
                if length rows = 0
                then (status_json 404 (error_body ''Request not found''), s')
                else
                  (status_json 200
                     (JObj [(''message'', JStr ''Status updated successfully!''),
                            (''request'', first_row rows)]), s')))"

section \<open>Administrators\<close>

definition admin_json :: "admin_row \<Rightarrow> jsval" where
  "admin_json r =
     JObj [(''id'', JNum (of_int (a_id r))), (''username'', JStr (a_username r)),
           (''role'', JStr (a_role r))]"

text \<open>
  \<^verbatim>\<open>INSERT INTO admin (username, password, role) VALUES ($1, $2, 'admin')
  ON CONFLICT (username) DO NOTHING\<close>
\<close>

definition insert_admin ::
  "call \<Rightarrow> string option \<Rightarrow> string option \<Rightarrow> db \<Rightarrow> js_error + jsval list \<times> db" where
  "insert_admin E username password s =
     (case (username, password) of
        (Some u, Some p) \<Rightarrow>
          if u \<in> set (map a_username (admin s)) then Inr ([], s)
          else
            let row = \<lparr>a_id = serial E, a_username = u, a_password = p, a_role = ''admin''\<rparr>
            in Inr ([], s\<lparr>admin := admin s @ [row]\<rparr>)
      | _ \<Rightarrow> Inl not_null_violation)"

text \<open>\<^verbatim>\<open>SELECT * FROM admin WHERE username = $1\<close>\<close>

definition select_admin_by_username :: "string option \<Rightarrow> db \<Rightarrow> js_error + admin_row list \<times> db" where
  "select_admin_by_username username s =
     (case username of
        None \<Rightarrow> Inr ([], s)
      | Some u \<Rightarrow> Inr (filter (\<lambda>r. a_username r = u) (admin s), s))"

text \<open>
  \<^verbatim>\<open>SELECT id, username, role FROM admin WHERE id = $1\<close>, the parameter being the number
  \<^verbatim>\<open>decoded.id\<close>: the driver sends its decimal text and the store reads the same integer.
\<close>

definition select_admin_by_id :: "int \<Rightarrow> db \<Rightarrow> js_error + jsval list \<times> db" where
  "select_admin_by_id n s = Inr (map admin_json (filter (\<lambda>r. a_id r = n) (admin s)), s)"

text \<open>\<^verbatim>\<open>SELECT id, username, role FROM admin;\<close>\<close>

definition select_admin :: "db \<Rightarrow> js_error + jsval list \<times> db" where
  "select_admin s = Inr (map admin_json (admin s), s)"

text \<open>\<^verbatim>\<open>app.post('/api/admin/add', ...)\<close>\<close>

definition interpolate :: "deps \<Rightarrow> jsval \<Rightarrow> string" where
  "interpolate D v = (case v of JStr x \<Rightarrow> x | _ \<Rightarrow> template D v)"

definition internal_error_dot :: response where
  "internal_error_dot = status_json 500 (error_body ''Internal server error.'')"

definition admin_add :: "deps \<Rightarrow> call \<Rightarrow> request \<Rightarrow> db \<Rightarrow> response \<times> db" where
  "admin_add D E req s =
     (let username = field req ''username'';
          password = field req ''password''
      in if \<not> truthy username \<or> \<not> truthy password
         then (status_json 400 (error_body ''Missing username or password.''), s)
         else
           (case bcrypt_hash D E password of
              Inl error \<Rightarrow> (internal_error_dot, s)
            | Inr hashedPassword \<Rightarrow>
                (case pool_query E
                        (insert_admin E (prepareValue D username)
                           (prepareValue D (JStr hashedPassword))) s of
                   Inl error \<Rightarrow> (internal_error_dot, s)
                 | Inr (rows, s') \<Rightarrow>
                     (json (JObj [(''message'',
                             JStr (''Admin '' @ interpolate D username @ '' added successfully!''))]),
                      s'))))"

text \<open>\<^verbatim>\<open>app.post('/api/admin/login', ...)\<close>\<close>

definition admin_login :: "deps \<Rightarrow> call \<Rightarrow> request \<Rightarrow> db \<Rightarrow> response \<times> db" where
  "admin_login D E req s =
     (let username = field req ''username'';
          password = field req ''password''
      in case pool_query E (select_admin_by_username (prepareValue D username)) s of
           Inl error \<Rightarrow> (internal_error_dot, s)
         | Inr (rows, s') \<Rightarrow>
             (case rows of
                [] \<Rightarrow> (status_json 401 (error_body ''Invalid username or password.''), s')
              | adm # _ \<Rightarrow>
                  (case bcrypt_compare D password (a_password adm) of
                     Inl error \<Rightarrow> (internal_error_dot, s')
                   | Inr isValidPassword \<Rightarrow>
                       if \<not> isValidPassword
                       then (status_json 401 (error_body ''Invalid username or password.''), s')
                       else
                         (case jwt_sign D
                                 \<lparr>c_id = a_id adm, c_username = a_username adm,
                                  c_role = a_role adm\<rparr>
                                 (JWT_SECRET D) ''1h'' (now E) of
                            Inl error \<Rightarrow> (internal_error_dot, s')
                          | Inr token \<Rightarrow> (json (JObj [(''token'', JStr token)]), s')))))"

text \<open>\<^verbatim>\<open>req.headers.authorization?.split(' ')[1]\<close>\<close>

fun split_space :: "string \<Rightarrow> string list" where
  "split_space [] = [] # []"
| "split_space (c # cs) =
     (if c = CHR '' '' then [] # split_space cs
      else (case split_space cs of [] \<Rightarrow> [c] # [] | w # ws \<Rightarrow> (c # w) # ws))"

definition header_token :: "request \<Rightarrow> string option" where
  "header_token req =
     (case authorization req of
        None \<Rightarrow> None
      | Some h \<Rightarrow> (case split_space h of _ # t # _ \<Rightarrow> Some t | _ \<Rightarrow> None))"

text \<open>\<^verbatim>\<open>!token\<close> for a token that is \<^verbatim>\<open>undefined\<close> or a string.\<close>

definition no_token :: "string option \<Rightarrow> bool" where
  "no_token token = (case token of None \<Rightarrow> True | Some t \<Rightarrow> t = [])"

text \<open>\<^verbatim>\<open>app.get('/api/admin/profile', ...)\<close>\<close>

definition admin_profile :: "deps \<Rightarrow> call \<Rightarrow> request \<Rightarrow> db \<Rightarrow> response \<times> db" where
  "admin_profile D E req s =
     (let token = header_token req
      in if no_token token
         then (status_json 401 (error_body ''Unauthorized: No token provided.''), s)
         else
           (case jwt_verify D (case token of Some t \<Rightarrow> t | None \<Rightarrow> []) (JWT_SECRET D) (now E) of
              Inl error \<Rightarrow> (status_json 401 (error_body ''Unauthorized: Invalid token.''), s)
            | Inr decoded \<Rightarrow>
                (case pool_query E (select_admin_by_id (c_id decoded)) s of
                   Inl error \<Rightarrow> (status_json 401 (error_body ''Unauthorized: Invalid token.''), s)
                 | Inr (rows, s') \<Rightarrow>
                     if length rows = 0
                     then (status_json 404 (error_body ''Admin not found.''), s')
                     else (json (first_row rows), s'))))"

text \<open>\<^verbatim>\<open>app.get('/api/admin/all', ...)\<close>\<close>

definition admin_all :: "deps \<Rightarrow> call \<Rightarrow> request \<Rightarrow> db \<Rightarrow> response \<times> db" where
  "admin_all D E req s =
     (case pool_query E select_admin s of
        Inl error \<Rightarrow> (internal_error_dot, s)
      | Inr (rows, s') \<Rightarrow> (json (JArr rows), s'))"

text \<open>
  \<^verbatim>\<open>verifyAdminToken(req, res, next)\<close>: the middleware either answers itself or calls
  \<^verbatim>\<open>next()\<close> on the request with \<^verbatim>\<open>req.admin\<close> set.
\<close>

datatype guard = Responded response | Next request

definition verifyAdminToken :: "deps \<Rightarrow> call \<Rightarrow> request \<Rightarrow> guard" where
  "verifyAdminToken D E req =
     (let token = header_token req
      in if no_token token
         then Responded (status_json 401 (error_body ''Unauthorized: No token provided.''))
         else
           (case jwt_verify D (case token of Some t \<Rightarrow> t | None \<Rightarrow> []) (JWT_SECRET D) (now E) of
              Inl error \<Rightarrow> Responded (status_json 401 (error_body ''Unauthorized: Invalid token.''))
            | Inr decoded \<Rightarrow>
                if c_role decoded \<noteq> ''admin''
                then Responded (status_json 403 (error_body ''Forbidden: Not an admin.''))
                else Next (req\<lparr>req_admin := Some decoded\<rparr>)))"

section \<open>A concrete instance\<close>

text \<open>
  A small instance of the collaborators and of the store, on which the handlers are run:
  the hash is the salt followed by the password, a token is the text
  \<open>username.role.secret\<close>, and the verifier knows the two tokens below until their expiry.
\<close>

definition demo_deps :: deps where
  "demo_deps =
     \<lparr>toString = (\<lambda>v. ''[value]''),
      template = (\<lambda>v. ''[value]''),
      int4in = (\<lambda>t. if t = ''1'' then Some 1 else if t = ''2'' then Some 2
                     else if t = ''7'' then Some 7 else None),
      hash_fn = (\<lambda>salt p. salt @ p),
      verify_fn = (\<lambda>p h. drop (length h - length p) h = p),
      JWT_SECRET = Some ''s3cret'',
      jwt_sign = (\<lambda>c secret expiresIn t.
         case secret of
           None \<Rightarrow> Inl (Error None ''secretOrPrivateKey must have a value'')
         | Some k \<Rightarrow> Inr (c_username c @ ''.'' @ c_role c @ ''.'' @ k)),
      jwt_verify = (\<lambda>token secret t.
         if secret = Some ''s3cret'' \<and> token = ''root.admin.s3cret'' \<and> t < 4600
         then Inr \<lparr>c_id = 1, c_username = ''root'', c_role = ''admin'', iat = 1000, exp = 4600\<rparr>
         else if secret = Some ''s3cret'' \<and> token = ''alice.user.s3cret'' \<and> t < 4600
         then Inr \<lparr>c_id = 5, c_username = ''alice'', c_role = ''user'', iat = 1000, exp = 4600\<rparr>
         else Inl (Error None ''invalid token''))\<rparr>"

definition demo_call :: call where
  "demo_call = \<lparr>salt = ''zz'', serial = 7, now = 2000, fault = None\<rparr>"

definition demo_outage :: call where
  "demo_outage = demo_call\<lparr>fault := Some (Error (Some ''ECONNREFUSED'') ''connect ECONNREFUSED'')\<rparr>"

definition demo_db :: db where
  "demo_db =
     \<lparr>users = [\<lparr>u_id = 5, u_username = ''alice'', u_password = ''xxp1'', u_role = ''user''\<rparr>],
      admin = [\<lparr>a_id = 1, a_username = ''root'', a_password = ''yy4325'', a_role = ''admin''\<rparr>],
      requests = [\<lparr>r_id = 2, r_username = ''alice'', r_product_name = ''soap'', r_quantity = 3,
                   r_request_date = Some 1500, r_status = Some ''Pending''\<rparr>]\<rparr>"

definition demo_request :: "(string \<times> jsval) list \<Rightarrow> request" where
  "demo_request kvs = \<lparr>authorization = None, body = kvs, params = [], req_admin = None\<rparr>"

text \<open>\<^verbatim>\<open>v.k\<close>: reading a property of a response body.\<close>

definition property :: "jsval \<Rightarrow> string \<Rightarrow> jsval" where
  "property v k =
     (case v of
        JObj kvs \<Rightarrow> (case map_of kvs k of None \<Rightarrow> JUndefined | Some x \<Rightarrow> x)
      | _ \<Rightarrow> JUndefined)"

section \<open>Properties of the handlers\<close>

lemmas handler_defs = status_json_def json_def error_body_def first_row_def pool_query_def
  internal_error_def internal_error_dot_def

lemmas demo_defs = demo_deps_def demo_call_def demo_outage_def demo_db_def demo_request_def
  field_def param_def

lemma filter_empty_username:
  "(filter (\<lambda>r. u_username r = u) rows = []) = (u \<notin> set (map u_username rows))"
  by (induction rows) auto

lemma filter_after_update:
  "filter (\<lambda>r. r_id r = n) (map (\<lambda>r. if r_id r = n then r\<lparr>r_status := st\<rparr> else r) rows)
     = map (\<lambda>r. r\<lparr>r_status := st\<rparr>) (filter (\<lambda>r. r_id r = n) rows)"
  by (induction rows) auto

lemma update_without_match:
  "filter (\<lambda>r. r_id r = n) rows = []
     \<Longrightarrow> map (\<lambda>r. if r_id r = n then r\<lparr>r_status := st\<rparr> else r) rows = rows"
  by (induction rows) (auto split: if_splits)

text \<open>The Authorization headers of the concrete requests.\<close>

lemma demo_bearer_root:
  "header_token (demo_request []\<lparr>authorization := Some ''Bearer root.admin.s3cret''\<rparr>)
     = Some ''root.admin.s3cret''"
  by (simp add: header_token_def demo_request_def)

lemma demo_bearer_alice:
  "header_token (demo_request []\<lparr>authorization := Some ''Bearer alice.user.s3cret''\<rparr>)
     = Some ''alice.user.s3cret''"
  by (simp add: header_token_def demo_request_def)

lemma demo_bearer_forged:
  "header_token (demo_request []\<lparr>authorization := Some ''Bearer forged''\<rparr>) = Some ''forged''"
  by (simp add: header_token_def demo_request_def)

lemma demo_no_header: "header_token (demo_request []) = None"
  by (simp add: header_token_def demo_request_def)

lemma demo_bare_scheme:
  "header_token (demo_request []\<lparr>authorization := Some ''Bearer''\<rparr>) = None"
  by (simp add: header_token_def demo_request_def)

text \<open>
  Claim C1. Registration (\<^verbatim>\<open>POST /api/auth/register\<close>). A request in which username,
  password or role is falsy is answered 400 and stores nothing. For a request whose three
  fields are present, the password being a string: if the store answers and the username
  is already in the users table the answer is 409 with an error body; if the store fails
  for any reason other than a unique violation the answer is 500; and if the store answers
  and the username is new, the first call is answered 201 with the new row's id, username
  and role, and a second call with the same request is answered 409.
\<close>

theorem register_status_codes:
  "(\<not> truthy (field req ''username'') \<or> \<not> truthy (field req ''password'')
      \<or> \<not> truthy (field req ''role'')
    \<longrightarrow> register D E req s
          = (status_json 400 (error_body ''Missing username, password, or role''), s))
  \<and> (truthy (field req ''username'') \<and> field req ''password'' = JStr p \<and> p \<noteq> []
      \<and> truthy (field req ''role'')
      \<and> prepareValue D (field req ''username'') = Some u
      \<and> prepareValue D (field req ''role'') = Some r
    \<longrightarrow>
      (fault E = None \<and> u \<in> set (map u_username (users s))
        \<longrightarrow> register D E req s = (status_json 409 (error_body ''Username already exists''), s))
    \<and> (fault E = Some e \<and> err_code e \<noteq> Some ''23505''
        \<longrightarrow> register D E req s = (status_json 500 (error_body ''Internal server error''), s))
    \<and> (fault E = None \<and> fault E' = None \<and> u \<notin> set (map u_username (users s))
        \<longrightarrow> (let row = \<lparr>u_id = serial E, u_username = u, u_password = hash_fn D (salt E) p,
                          u_role = r\<rparr>;
                  s' = s\<lparr>users := users s @ [row]\<rparr>
              in register D E req s
                   = (status_json 201
                        (JObj [(''message'', JStr ''User registered successfully!''),
                               (''user'', JObj [(''id'', JNum (of_int (serial E))),
                                                (''username'', JStr u), (''role'', JStr r)])]), s')
               \<and> register D E' req s'
                   = (status_json 409 (error_body ''Username already exists''), s'))))"
  by (auto simp: register_def Let_def handler_defs bcrypt_hash_def insert_users_def
      register_catch_def prepareValue_def unique_violation_def user_returning_def)

theorem register_status_codes_witness:
  "register demo_deps demo_call
     (demo_request [(''username'', JStr ''bob''), (''password'', JStr ''pw'')]) demo_db
     = (status_json 400 (error_body ''Missing username, password, or role''), demo_db)
 \<and> register demo_deps demo_call
     (demo_request [(''username'', JStr ''alice''), (''password'', JStr ''pw''),
                    (''role'', JStr ''user'')]) demo_db
     = (status_json 409 (error_body ''Username already exists''), demo_db)
 \<and> register demo_deps demo_outage
     (demo_request [(''username'', JStr ''bob''), (''password'', JStr ''pw''),
                    (''role'', JStr ''user'')]) demo_db
     = (status_json 500 (error_body ''Internal server error''), demo_db)
 \<and> status (fst (register demo_deps demo_call
     (demo_request [(''username'', JStr ''bob''), (''password'', JStr ''pw''),
                    (''role'', JStr ''user'')]) demo_db)) = 201
 \<and> status (fst (register demo_deps (demo_call\<lparr>salt := ''qq'', serial := 8\<rparr>)
     (demo_request [(''username'', JStr ''bob''), (''password'', JStr ''pw''),
                    (''role'', JStr ''user'')])
     (snd (register demo_deps demo_call
        (demo_request [(''username'', JStr ''bob''), (''password'', JStr ''pw''),
                       (''role'', JStr ''user'')]) demo_db)))) = 409"
  using
    register_status_codes [where req = "demo_request [(''username'', JStr ''bob''), (''password'', JStr ''pw'')]"
      and D = demo_deps and E = demo_call and s = demo_db]
    register_status_codes [where req = "demo_request [(''username'', JStr ''alice''), (''password'', JStr ''pw''),
                    (''role'', JStr ''user'')]"
      and D = demo_deps and E = demo_call and s = demo_db and p = "''pw''" and u = "''alice''"
      and r = "''user''"]
    register_status_codes [where req = "demo_request [(''username'', JStr ''bob''), (''password'', JStr ''pw''),
                    (''role'', JStr ''user'')]"
      and D = demo_deps and E = demo_outage and s = demo_db and p = "''pw''" and u = "''bob''"
      and r = "''user''" and e = "Error (Some ''ECONNREFUSED'') ''connect ECONNREFUSED''"]
    register_status_codes [where req = "demo_request [(''username'', JStr ''bob''), (''password'', JStr ''pw''),
                    (''role'', JStr ''user'')]"
      and D = demo_deps and E = demo_call and s = demo_db and p = "''pw''" and u = "''bob''"
      and r = "''user''" and E' = "demo_call\<lparr>salt := ''qq'', serial := 8\<rparr>"]
  by (simp add: demo_defs prepareValue_def Let_def status_json_def)

text \<open>
  User login (\<^verbatim>\<open>POST /api/auth/login\<close>) when the comparison of the password answers:
  for every store and every request that passes the presence check and whose query the
  store answers, if the username is in no row of the users table, or the comparison of the
  password with the hash of the matched row answers false, the answer is one and the same
  response, status 401 with the body \<^verbatim>\<open>{error: 'Invalid username or password'}\<close>, and
  the store is unchanged.
\<close>

lemma login_failure_constant:
  assumes "truthy (field req ''username'')" and "truthy (field req ''password'')"
    and "fault E = None"
    and "prepareValue D (field req ''username'') = Some u"
    and "u \<notin> set (map u_username (users s))
         \<or> (\<exists>user rest. filter (\<lambda>r. u_username r = u) (users s) = user # rest
               \<and> bcrypt_compare D (field req ''password'') (u_password user) = Inr False)"
  shows "login D E req s = (status_json 401 (error_body ''Invalid username or password''), s)"
proof -
  from assms(5) show ?thesis
  proof
    assume "u \<notin> set (map u_username (users s))"
    then have "filter (\<lambda>r. u_username r = u) (users s) = []"
      by (simp add: filter_empty_username)
    with assms(1-4) show ?thesis
      by (simp add: login_def Let_def pool_query_def select_users_by_username_def)
  next
    assume "\<exists>user rest. filter (\<lambda>r. u_username r = u) (users s) = user # rest
               \<and> bcrypt_compare D (field req ''password'') (u_password user) = Inr False"
    then obtain user rest where "filter (\<lambda>r. u_username r = u) (users s) = user # rest"
      and "bcrypt_compare D (field req ''password'') (u_password user) = Inr False" by blast
    with assms(1-4) show ?thesis
      by (simp add: login_def Let_def pool_query_def select_users_by_username_def)
  qed
qed

lemma login_failure_constant_demo:
  "login demo_deps demo_call
     (demo_request [(''username'', JStr ''nobody''), (''password'', JStr ''p1'')]) demo_db
   = (status_json 401 (error_body ''Invalid username or password''), demo_db)
   \<and> bcrypt_compare demo_deps (JStr ''wrong'') ''xxp1'' = Inr False
   \<and> login demo_deps demo_call
     (demo_request [(''username'', JStr ''alice''), (''password'', JStr ''wrong'')]) demo_db
   = (status_json 401 (error_body ''Invalid username or password''), demo_db)"
proof (intro conjI)
  show "login demo_deps demo_call
     (demo_request [(''username'', JStr ''nobody''), (''password'', JStr ''p1'')]) demo_db
   = (status_json 401 (error_body ''Invalid username or password''), demo_db)"
    by (rule login_failure_constant [where u = "''nobody''"])
       (simp_all add: demo_defs prepareValue_def)
  show "bcrypt_compare demo_deps (JStr ''wrong'') ''xxp1'' = Inr False"
    by (simp add: bcrypt_compare_def demo_deps_def)
  show "login demo_deps demo_call
     (demo_request [(''username'', JStr ''alice''), (''password'', JStr ''wrong'')]) demo_db
   = (status_json 401 (error_body ''Invalid username or password''), demo_db)"
    by (rule login_failure_constant [where u = "''alice''"])
       (simp_all add: demo_defs prepareValue_def bcrypt_compare_def)
qed

text \<open>
  Claim C2. User login is to answer an absent username and a password that the stored
  hash does not verify with one and the same 401, for every store and every pair of
  inputs, so that the caller cannot tell the two causes apart. The handler does not do so
  for a password that is present but not a string. No hash verifies such a password, yet
  for a request that passes the presence check and a store that answers, the answer is
  500 when the username is in the users table (the comparison rejects inside the
  \<^verbatim>\<open>try\<close> and the \<^verbatim>\<open>catch\<close> answers) and 401 when it is not: the status tells the
  caller whether the username exists.
\<close>

theorem login_nonstring_password_reveals_username:
  assumes "truthy (field req ''username'')" and "truthy (field req ''password'')"
    and "\<And>p. field req ''password'' \<noteq> JStr p"
    and "fault E = None"
    and "prepareValue D (field req ''username'') = Some u"
  shows "(\<forall>h. bcrypt_compare D (field req ''password'') h \<noteq> Inr True)
       \<and> (u \<in> set (map u_username (users s)) \<longrightarrow>
            login D E req s = (status_json 500 (error_body ''Internal server error''), s))
       \<and> (u \<notin> set (map u_username (users s)) \<longrightarrow>
            login D E req s = (status_json 401 (error_body ''Invalid username or password''), s))"
proof (intro conjI impI allI)
  fix h
  from assms(3) show "bcrypt_compare D (field req ''password'') h \<noteq> Inr True"
    by (cases "field req ''password''") (auto simp: bcrypt_compare_def)
next
  assume "u \<in> set (map u_username (users s))"
  then have "filter (\<lambda>r. u_username r = u) (users s) \<noteq> []"
    by (simp add: filter_empty_username)
  then obtain user rest where m: "filter (\<lambda>r. u_username r = u) (users s) = user # rest"
    by (cases "filter (\<lambda>r. u_username r = u) (users s)") auto
  from assms(3) obtain e where "bcrypt_compare D (field req ''password'') (u_password user) = Inl e"
    by (cases "field req ''password''") (auto simp: bcrypt_compare_def)
  with assms(1,2,4,5) m
  show "login D E req s = (status_json 500 (error_body ''Internal server error''), s)"
    by (simp add: login_def Let_def pool_query_def select_users_by_username_def
        internal_error_def)
next
  assume "u \<notin> set (map u_username (users s))"
  then have "filter (\<lambda>r. u_username r = u) (users s) = []"
    by (simp add: filter_empty_username)
  with assms(1,2,4,5)
  show "login D E req s = (status_json 401 (error_body ''Invalid username or password''), s)"
    by (simp add: login_def Let_def pool_query_def select_users_by_username_def)
qed

theorem login_nonstring_password_reveals_username_witness:
  "login demo_deps demo_call
     (demo_request [(''username'', JStr ''alice''), (''password'', JNum 5)]) demo_db
   = (status_json 500 (error_body ''Internal server error''), demo_db)
   \<and> login demo_deps demo_call
     (demo_request [(''username'', JStr ''nobody''), (''password'', JNum 5)]) demo_db
   = (status_json 401 (error_body ''Invalid username or password''), demo_db)
   \<and> status (fst (login demo_deps demo_call
     (demo_request [(''username'', JStr ''alice''), (''password'', JNum 5)]) demo_db))
     \<noteq> status (fst (login demo_deps demo_call
     (demo_request [(''username'', JStr ''nobody''), (''password'', JNum 5)]) demo_db))"
proof -
  let ?a = "demo_request [(''username'', JStr ''alice''), (''password'', JNum 5)]"
  let ?n = "demo_request [(''username'', JStr ''nobody''), (''password'', JNum 5)]"
  have a: "login demo_deps demo_call ?a demo_db
     = (status_json 500 (error_body ''Internal server error''), demo_db)"
    by (rule login_nonstring_password_reveals_username
          [where u = "''alice''", THEN conjunct2, THEN conjunct1, rule_format])
       (simp_all add: demo_defs prepareValue_def)
  have n: "login demo_deps demo_call ?n demo_db
     = (status_json 401 (error_body ''Invalid username or password''), demo_db)"
    by (rule login_nonstring_password_reveals_username
          [where u = "''nobody''", THEN conjunct2, THEN conjunct2, rule_format])
       (simp_all add: demo_defs prepareValue_def)
  from a n show ?thesis by (simp add: status_json_def)
qed

text \<open>
  Claim C3, as amended. Every login answered 200, by the user route or by the admin
  route, matched a row by username, and the token of the response is what the signer
  returned for the payload made of exactly that row's id, username and role, the secret
  of the environment and the expiry \<^verbatim>\<open>'1h'\<close>. The user route returns the token together
  with the row's username; the admin route returns the token alone.
\<close>

theorem login_token_claims:
  "(status (fst (login D E req s)) = 200 \<longrightarrow>
      (\<exists>u user rest token.
          prepareValue D (field req ''username'') = Some u
        \<and> filter (\<lambda>r. u_username r = u) (users s) = user # rest
        \<and> jwt_sign D \<lparr>c_id = u_id user, c_username = u_username user, c_role = u_role user\<rparr>
              (JWT_SECRET D) ''1h'' (now E) = Inr token
        \<and> login D E req s
            = (\<lparr>status = 200,
                payload = JObj [(''message'', JStr ''Login successful''), (''token'', JStr token),
                                (''username'', JStr (u_username user))]\<rparr>, s)))
 \<and> (status (fst (admin_login D E req s)) = 200 \<longrightarrow>
      (\<exists>u adm rest token.
          prepareValue D (field req ''username'') = Some u
        \<and> filter (\<lambda>r. a_username r = u) (admin s) = adm # rest
        \<and> jwt_sign D \<lparr>c_id = a_id adm, c_username = a_username adm, c_role = a_role adm\<rparr>
              (JWT_SECRET D) ''1h'' (now E) = Inr token
        \<and> admin_login D E req s = (\<lparr>status = 200, payload = JObj [(''token'', JStr token)]\<rparr>, s)))"
proof (intro conjI impI)
  assume ok: "status (fst (login D E req s)) = 200"
  then show "\<exists>u user rest token.
          prepareValue D (field req ''username'') = Some u
        \<and> filter (\<lambda>r. u_username r = u) (users s) = user # rest
        \<and> jwt_sign D \<lparr>c_id = u_id user, c_username = u_username user, c_role = u_role user\<rparr>
              (JWT_SECRET D) ''1h'' (now E) = Inr token
        \<and> login D E req s
            = (\<lparr>status = 200,
                payload = JObj [(''message'', JStr ''Login successful''), (''token'', JStr token),
                                (''username'', JStr (u_username user))]\<rparr>, s)"
    by (auto simp: login_def Let_def handler_defs select_users_by_username_def
        split: if_splits option.splits sum.splits list.splits)
next
  assume ok: "status (fst (admin_login D E req s)) = 200"
  then show "\<exists>u adm rest token.
          prepareValue D (field req ''username'') = Some u
        \<and> filter (\<lambda>r. a_username r = u) (admin s) = adm # rest
        \<and> jwt_sign D \<lparr>c_id = a_id adm, c_username = a_username adm, c_role = a_role adm\<rparr>
              (JWT_SECRET D) ''1h'' (now E) = Inr token
        \<and> admin_login D E req s = (\<lparr>status = 200, payload = JObj [(''token'', JStr token)]\<rparr>, s)"
    by (auto simp: admin_login_def Let_def handler_defs select_admin_by_username_def
        split: if_splits option.splits sum.splits list.splits)
qed

theorem login_token_claims_witness:
  "status (fst (login demo_deps demo_call
      (demo_request [(''username'', JStr ''alice''), (''password'', JStr ''p1'')]) demo_db)) = 200
 \<and> login demo_deps demo_call
      (demo_request [(''username'', JStr ''alice''), (''password'', JStr ''p1'')]) demo_db
     = (\<lparr>status = 200,
         payload = JObj [(''message'', JStr ''Login successful''),
                         (''token'', JStr ''alice.user.s3cret''),
                         (''username'', JStr ''alice'')]\<rparr>, demo_db)
 \<and> jwt_sign demo_deps \<lparr>c_id = 5, c_username = ''alice'', c_role = ''user''\<rparr>
      (JWT_SECRET demo_deps) ''1h'' (now demo_call) = Inr ''alice.user.s3cret''
 \<and> status (fst (admin_login demo_deps demo_call
      (demo_request [(''username'', JStr ''root''), (''password'', JStr ''4325'')]) demo_db)) = 200
 \<and> admin_login demo_deps demo_call
      (demo_request [(''username'', JStr ''root''), (''password'', JStr ''4325'')]) demo_db
     = (\<lparr>status = 200, payload = JObj [(''token'', JStr ''root.admin.s3cret'')]\<rparr>, demo_db)"
proof -
  let ?req = "demo_request [(''username'', JStr ''alice''), (''password'', JStr ''p1'')]"
  let ?areq = "demo_request [(''username'', JStr ''root''), (''password'', JStr ''4325'')]"
  have h: "status (fst (login demo_deps demo_call ?req demo_db)) = 200"
    by (simp add: login_def Let_def handler_defs demo_defs select_users_by_username_def
        prepareValue_def bcrypt_compare_def)
  have ah: "status (fst (admin_login demo_deps demo_call ?areq demo_db)) = 200"
    by (simp add: admin_login_def Let_def handler_defs demo_defs select_admin_by_username_def
        prepareValue_def bcrypt_compare_def)
  from login_token_claims [of demo_deps demo_call ?req demo_db, THEN conjunct1, rule_format, OF h]
  have l: "login demo_deps demo_call ?req demo_db
     = (\<lparr>status = 200,
         payload = JObj [(''message'', JStr ''Login successful''),
                         (''token'', JStr ''alice.user.s3cret''),
                         (''username'', JStr ''alice'')]\<rparr>, demo_db)"
    by (auto simp: demo_defs prepareValue_def)
  from login_token_claims [of demo_deps demo_call ?areq demo_db, THEN conjunct2, rule_format, OF ah]
  have a: "admin_login demo_deps demo_call ?areq demo_db
     = (\<lparr>status = 200, payload = JObj [(''token'', JStr ''root.admin.s3cret'')]\<rparr>, demo_db)"
    by (auto simp: demo_defs prepareValue_def)
  have j: "jwt_sign demo_deps \<lparr>c_id = 5, c_username = ''alice'', c_role = ''user''\<rparr>
      (JWT_SECRET demo_deps) ''1h'' (now demo_call) = Inr ''alice.user.s3cret''"
    by (simp add: demo_defs)
  from h l j ah a show ?thesis by (intro conjI)
qed

text \<open>
  Claim C3 as written also has the admin route return the username. A successful admin
  login on the concrete store: the response body has no \<^verbatim>\<open>username\<close> property.
\<close>

theorem admin_login_body_without_username:
  "status (fst (admin_login demo_deps demo_call
      (demo_request [(''username'', JStr ''root''), (''password'', JStr ''4325'')]) demo_db)) = 200
   \<and> property (payload (fst (admin_login demo_deps demo_call
      (demo_request [(''username'', JStr ''root''), (''password'', JStr ''4325'')]) demo_db)))
        ''username'' = JUndefined"
  by (simp add: admin_login_def Let_def handler_defs demo_defs select_admin_by_username_def
      prepareValue_def bcrypt_compare_def property_def)

text \<open>
  Claim C4. Request submission (\<^verbatim>\<open>POST /api/requests\<close>). Whenever username, product_name
  or quantity is falsy (an absent quantity and the number 0 are both falsy), the answer is
  400 and the requests table, with the rest of the store, is unchanged.
\<close>

theorem post_requests_rejects_falsy:
  assumes "\<not> truthy (field req ''username'') \<or> \<not> truthy (field req ''product_name'')
           \<or> \<not> truthy (field req ''quantity'')"
  shows "post_requests D E req s
           = (status_json 400 (error_body ''Missing username, product name, or quantity''), s)
         \<and> status (fst (post_requests D E req s)) = 400
         \<and> requests (snd (post_requests D E req s)) = requests s"
  using assms by (auto simp: post_requests_def Let_def status_json_def)

theorem post_requests_rejects_falsy_witness:
  "\<not> truthy (field (demo_request [(''username'', JStr ''alice''), (''product_name'', JStr ''soap''),
                                   (''quantity'', JNum 0)]) ''quantity'')
 \<and> post_requests demo_deps demo_call
      (demo_request [(''username'', JStr ''alice''), (''product_name'', JStr ''soap''),
                     (''quantity'', JNum 0)]) demo_db
     = (status_json 400 (error_body ''Missing username, product name, or quantity''), demo_db)
 \<and> \<not> truthy (field (demo_request [(''username'', JStr ''alice''), (''product_name'', JStr ''soap'')])
        ''quantity'')
 \<and> post_requests demo_deps demo_call
      (demo_request [(''username'', JStr ''alice''), (''product_name'', JStr ''soap'')]) demo_db
     = (status_json 400 (error_body ''Missing username, product name, or quantity''), demo_db)"
proof -
  let ?zero = "demo_request [(''username'', JStr ''alice''), (''product_name'', JStr ''soap''),
                             (''quantity'', JNum 0)]"
  let ?none = "demo_request [(''username'', JStr ''alice''), (''product_name'', JStr ''soap'')]"
  have z: "\<not> truthy (field ?zero ''quantity'')" by (simp add: demo_defs)
  have n: "\<not> truthy (field ?none ''quantity'')" by (simp add: demo_defs)
  from z have "\<not> truthy (field ?zero ''username'') \<or> \<not> truthy (field ?zero ''product_name'')
           \<or> \<not> truthy (field ?zero ''quantity'')" by blast
  note rz = post_requests_rejects_falsy [OF this, of demo_deps demo_call demo_db]
  from n have "\<not> truthy (field ?none ''username'') \<or> \<not> truthy (field ?none ''product_name'')
           \<or> \<not> truthy (field ?none ''quantity'')" by blast
  note rn = post_requests_rejects_falsy [OF this, of demo_deps demo_call demo_db]
  from z n rz rn show ?thesis by blast
qed

text \<open>
  Claim C5. Status update (\<^verbatim>\<open>PATCH /api/requests/:id\<close>) with a truthy status in the body,
  a path id that the store reads as the integer \<open>n\<close>, and a store that answers. If a row
  with id \<open>n\<close> exists, every such row has its status set to the given text, and the answer
  is 200 with the updated row; if no row has id \<open>n\<close>, the answer is 404 and the store is
  unchanged.
\<close>

theorem patch_requests_found_or_404:
  assumes "truthy (field req ''status'')"
    and "prepareValue D (field req ''status'') = Some st"
    and "map_of (params req) ''id'' = Some id_text"
    and "int4in D id_text = Some n"
    and "fault E = None"
  shows "(filter (\<lambda>r. r_id r = n) (requests s) = row # rest \<longrightarrow>
            patch_requests D E req s
              = (status_json 200
                   (JObj [(''message'', JStr ''Status updated successfully!''),
                          (''request'', request_json (row\<lparr>r_status := Some st\<rparr>))]),
                 s\<lparr>requests :=
                     map (\<lambda>r. if r_id r = n then r\<lparr>r_status := Some st\<rparr> else r) (requests s)\<rparr>))
       \<and> (filter (\<lambda>r. r_id r = n) (requests s) = [] \<longrightarrow>
            patch_requests D E req s = (status_json 404 (error_body ''Request not found''), s))"
  using assms
  by (auto simp: patch_requests_def Let_def handler_defs param_def prepareValue_def
      update_requests_status_def filter_after_update update_without_match)

theorem patch_requests_found_or_404_witness:
  "status (fst (patch_requests demo_deps demo_call
      (demo_request [(''status'', JStr ''Dispatched'')]\<lparr>params := [(''id'', ''2'')]\<rparr>) demo_db)) = 200
 \<and> map r_status (requests (snd (patch_requests demo_deps demo_call
      (demo_request [(''status'', JStr ''Dispatched'')]\<lparr>params := [(''id'', ''2'')]\<rparr>) demo_db)))
     = [Some ''Dispatched'']
 \<and> patch_requests demo_deps demo_call
      (demo_request [(''status'', JStr ''Dispatched'')]\<lparr>params := [(''id'', ''7'')]\<rparr>) demo_db
     = (status_json 404 (error_body ''Request not found''), demo_db)"
  using
    patch_requests_found_or_404 [where req = "demo_request [(''status'', JStr ''Dispatched'')]\<lparr>params := [(''id'', ''2'')]\<rparr>"
      and D = demo_deps and E = demo_call and s = demo_db and st = "''Dispatched''"
      and id_text = "''2''" and n = 2 and row = "hd (requests demo_db)" and rest = "[]"]
    patch_requests_found_or_404 [where req = "demo_request [(''status'', JStr ''Dispatched'')]\<lparr>params := [(''id'', ''7'')]\<rparr>"
      and D = demo_deps and E = demo_call and s = demo_db and st = "''Dispatched''"
      and id_text = "''7''" and n = 7]
  by (simp add: demo_defs prepareValue_def status_json_def)

text \<open>
  Claim C6. Add-admin (\<^verbatim>\<open>POST /api/admin/add\<close>) with username present and a string
  password, the store answering. If the username is already in the admin table, the
  store is unchanged (the existing row keeps its hash) and the answer is 200 with the
  success message, not an error. Calling the route a second time with the same request,
  whatever salt and serial value the second call draws, is answered 200 and leaves the
  store exactly as the first call left it.
\<close>

theorem admin_add_existing_is_noop:
  assumes "truthy (field req ''username'')"
    and "field req ''password'' = JStr p" and "p \<noteq> []"
    and "prepareValue D (field req ''username'') = Some u"
    and "fault E = None" and "fault E' = None"
  shows "(u \<in> set (map a_username (admin s)) \<longrightarrow>
            admin_add D E req s
              = (\<lparr>status = 200,
                  payload = JObj [(''message'',
                    JStr (''Admin '' @ interpolate D (field req ''username'')
                            @ '' added successfully!''))]\<rparr>, s))
       \<and> status (fst (admin_add D E' req (snd (admin_add D E req s)))) = 200
       \<and> snd (admin_add D E' req (snd (admin_add D E req s))) = snd (admin_add D E req s)"
  using assms
  by (auto simp: admin_add_def Let_def handler_defs bcrypt_hash_def insert_admin_def
      prepareValue_def)

theorem admin_add_existing_is_noop_witness:
  "admin_add demo_deps demo_call
      (demo_request [(''username'', JStr ''root''), (''password'', JStr ''other'')]) demo_db
     = (\<lparr>status = 200,
         payload = JObj [(''message'', JStr ''Admin root added successfully!'')]\<rparr>, demo_db)
 \<and> snd (admin_add demo_deps (demo_call\<lparr>salt := ''qq'', serial := 8\<rparr>)
      (demo_request [(''username'', JStr ''carol''), (''password'', JStr ''pw'')])
      (snd (admin_add demo_deps demo_call
         (demo_request [(''username'', JStr ''carol''), (''password'', JStr ''pw'')]) demo_db)))
     = snd (admin_add demo_deps demo_call
         (demo_request [(''username'', JStr ''carol''), (''password'', JStr ''pw'')]) demo_db)"
  using
    admin_add_existing_is_noop [where req = "demo_request [(''username'', JStr ''root''), (''password'', JStr ''other'')]"
      and D = demo_deps and E = demo_call and E' = demo_call and s = demo_db and p = "''other''"
      and u = "''root''"]
    admin_add_existing_is_noop [where req = "demo_request [(''username'', JStr ''carol''), (''password'', JStr ''pw'')]"
      and D = demo_deps and E = demo_call and E' = "demo_call\<lparr>salt := ''qq'', serial := 8\<rparr>"
      and s = demo_db and p = "''pw''" and u = "''carol''"]
  by (simp add: demo_defs prepareValue_def interpolate_def)

text \<open>
  Claim C7. The admin guard. Without an Authorization header, or with one whose second
  space-separated part is absent or empty, it answers 401. With a token that the verifier
  rejects (invalid or expired) it answers 401. With a token that verifies but whose role
  is not \<^verbatim>\<open>admin\<close> it answers 403. Otherwise it calls the next handler on the request with
  the decoded claims attached.
\<close>

theorem verifyAdminToken_cases:
  "(authorization req = None \<or> no_token (header_token req) \<longrightarrow>
      verifyAdminToken D E req
        = Responded (status_json 401 (error_body ''Unauthorized: No token provided.'')))
 \<and> (header_token req = Some t \<and> t \<noteq> [] \<longrightarrow>
      (jwt_verify D t (JWT_SECRET D) (now E) = Inl e \<longrightarrow>
         verifyAdminToken D E req
           = Responded (status_json 401 (error_body ''Unauthorized: Invalid token.'')))
    \<and> (jwt_verify D t (JWT_SECRET D) (now E) = Inr d \<and> c_role d \<noteq> ''admin'' \<longrightarrow>
         verifyAdminToken D E req
           = Responded (status_json 403 (error_body ''Forbidden: Not an admin.'')))
    \<and> (jwt_verify D t (JWT_SECRET D) (now E) = Inr d \<and> c_role d = ''admin'' \<longrightarrow>
         verifyAdminToken D E req = Next (req\<lparr>req_admin := Some d\<rparr>)))"
  by (auto simp: verifyAdminToken_def Let_def header_token_def no_token_def)

theorem verifyAdminToken_cases_witness:
  "verifyAdminToken demo_deps demo_call (demo_request [])
     = Responded (status_json 401 (error_body ''Unauthorized: No token provided.''))
 \<and> verifyAdminToken demo_deps demo_call (demo_request []\<lparr>authorization := Some ''Bearer''\<rparr>)
     = Responded (status_json 401 (error_body ''Unauthorized: No token provided.''))
 \<and> verifyAdminToken demo_deps demo_call
      (demo_request []\<lparr>authorization := Some ''Bearer forged''\<rparr>)
     = Responded (status_json 401 (error_body ''Unauthorized: Invalid token.''))
 \<and> verifyAdminToken demo_deps (demo_call\<lparr>now := 5000\<rparr>)
      (demo_request []\<lparr>authorization := Some ''Bearer root.admin.s3cret''\<rparr>)
     = Responded (status_json 401 (error_body ''Unauthorized: Invalid token.''))
 \<and> verifyAdminToken demo_deps demo_call
      (demo_request []\<lparr>authorization := Some ''Bearer alice.user.s3cret''\<rparr>)
     = Responded (status_json 403 (error_body ''Forbidden: Not an admin.''))
 \<and> verifyAdminToken demo_deps demo_call
      (demo_request []\<lparr>authorization := Some ''Bearer root.admin.s3cret''\<rparr>)
     = Next (demo_request []\<lparr>authorization := Some ''Bearer root.admin.s3cret'',
          req_admin := Some \<lparr>c_id = 1, c_username = ''root'', c_role = ''admin'',
                              iat = 1000, exp = 4600\<rparr>\<rparr>)"
  using
    verifyAdminToken_cases [where req = "demo_request []" and D = demo_deps and E = demo_call]
    verifyAdminToken_cases [where req = "demo_request []\<lparr>authorization := Some ''Bearer''\<rparr>"
      and D = demo_deps and E = demo_call]
    verifyAdminToken_cases [where req = "demo_request []\<lparr>authorization := Some ''Bearer forged''\<rparr>"
      and D = demo_deps and E = demo_call and t = "''forged''"
      and e = "Error None ''invalid token''"]
    verifyAdminToken_cases [where req = "demo_request []\<lparr>authorization := Some ''Bearer root.admin.s3cret''\<rparr>"
      and D = demo_deps and E = "demo_call\<lparr>now := 5000\<rparr>" and t = "''root.admin.s3cret''"
      and e = "Error None ''invalid token''"]
    verifyAdminToken_cases [where req = "demo_request []\<lparr>authorization := Some ''Bearer alice.user.s3cret''\<rparr>"
      and D = demo_deps and E = demo_call and t = "''alice.user.s3cret''"
      and d = "\<lparr>c_id = 5, c_username = ''alice'', c_role = ''user'', iat = 1000, exp = 4600\<rparr>"]
    verifyAdminToken_cases [where req = "demo_request []\<lparr>authorization := Some ''Bearer root.admin.s3cret''\<rparr>"
      and D = demo_deps and E = demo_call and t = "''root.admin.s3cret''"
      and d = "\<lparr>c_id = 1, c_username = ''root'', c_role = ''admin'', iat = 1000, exp = 4600\<rparr>"]
  by (simp add: demo_bearer_root demo_bearer_alice demo_bearer_forged demo_no_header
      demo_bare_scheme no_token_def demo_deps_def demo_call_def)

text \<open>
  Claim C8. Admin profile (\<^verbatim>\<open>GET /api/admin/profile\<close>). With a token that verifies and a
  store that answers: if an admin row has the token's id, the answer is 200 with exactly
  id, username and role of that row; if none has, 404. A missing token is answered 401,
  a token that fails verification is answered 401. Whatever the request, the environment
  and the store, the status is 200, 401 or 404, and the store is unchanged.
\<close>

theorem admin_profile_codes:
  "(header_token req = Some t \<and> t \<noteq> [] \<and> jwt_verify D t (JWT_SECRET D) (now E) = Inr d
      \<and> fault E = None \<longrightarrow>
      (filter (\<lambda>r. a_id r = c_id d) (admin s) = row # rest \<longrightarrow>
         admin_profile D E req s
           = (\<lparr>status = 200,
               payload = JObj [(''id'', JNum (of_int (a_id row))),
                               (''username'', JStr (a_username row)),
                               (''role'', JStr (a_role row))]\<rparr>, s))
    \<and> (filter (\<lambda>r. a_id r = c_id d) (admin s) = [] \<longrightarrow>
         admin_profile D E req s = (status_json 404 (error_body ''Admin not found.''), s)))
 \<and> (no_token (header_token req) \<longrightarrow>
      admin_profile D E req s
        = (status_json 401 (error_body ''Unauthorized: No token provided.''), s))
 \<and> (header_token req = Some t \<and> t \<noteq> [] \<and> jwt_verify D t (JWT_SECRET D) (now E) = Inl e \<longrightarrow>
      admin_profile D E req s
        = (status_json 401 (error_body ''Unauthorized: Invalid token.''), s))
 \<and> status (fst (admin_profile D E req s)) \<in> {200, 401, 404}
 \<and> snd (admin_profile D E req s) = s"
  by (auto simp: admin_profile_def Let_def handler_defs no_token_def select_admin_by_id_def
      admin_json_def split: sum.splits option.splits)

theorem admin_profile_codes_witness:
  "admin_profile demo_deps demo_call
      (demo_request []\<lparr>authorization := Some ''Bearer root.admin.s3cret''\<rparr>) demo_db
     = (\<lparr>status = 200,
         payload = JObj [(''id'', JNum 1), (''username'', JStr ''root''),
                         (''role'', JStr ''admin'')]\<rparr>, demo_db)
 \<and> admin_profile demo_deps demo_call
      (demo_request []\<lparr>authorization := Some ''Bearer alice.user.s3cret''\<rparr>) demo_db
     = (status_json 404 (error_body ''Admin not found.''), demo_db)
 \<and> admin_profile demo_deps demo_call (demo_request []) demo_db
     = (status_json 401 (error_body ''Unauthorized: No token provided.''), demo_db)
 \<and> admin_profile demo_deps (demo_call\<lparr>now := 5000\<rparr>)
      (demo_request []\<lparr>authorization := Some ''Bearer root.admin.s3cret''\<rparr>) demo_db
     = (status_json 401 (error_body ''Unauthorized: Invalid token.''), demo_db)"
  using
    admin_profile_codes [where req = "demo_request []\<lparr>authorization := Some ''Bearer root.admin.s3cret''\<rparr>"
      and D = demo_deps and E = demo_call and s = demo_db and t = "''root.admin.s3cret''"
      and d = "\<lparr>c_id = 1, c_username = ''root'', c_role = ''admin'', iat = 1000, exp = 4600\<rparr>"
      and row = "\<lparr>a_id = 1, a_username = ''root'', a_password = ''yy4325'', a_role = ''admin''\<rparr>"
      and rest = "[]"]
    admin_profile_codes [where req = "demo_request []\<lparr>authorization := Some ''Bearer alice.user.s3cret''\<rparr>"
      and D = demo_deps and E = demo_call and s = demo_db and t = "''alice.user.s3cret''"
      and d = "\<lparr>c_id = 5, c_username = ''alice'', c_role = ''user'', iat = 1000, exp = 4600\<rparr>"]
    admin_profile_codes [where req = "demo_request []" and D = demo_deps and E = demo_call
      and s = demo_db]
    admin_profile_codes [where req = "demo_request []\<lparr>authorization := Some ''Bearer root.admin.s3cret''\<rparr>"
      and D = demo_deps and E = "demo_call\<lparr>now := 5000\<rparr>" and s = demo_db
      and t = "''root.admin.s3cret''" and e = "Error None ''invalid token''"]
  by (simp add: demo_bearer_root demo_bearer_alice demo_no_header no_token_def demo_deps_def
      demo_call_def demo_db_def)

text \<open>
  Claim C9. Listing all requests (\<^verbatim>\<open>GET /api/requests\<close>) and all admins
  (\<^verbatim>\<open>GET /api/admin/all\<close>) checks no credential: when the store answers, a request without
  Authorization header is answered 200 with every row of the table, an admin row being
  projected to id, username and role; and the answer to any request is the answer to the
  same request without the header.
\<close>

theorem list_all_unauthenticated:
  assumes "fault E = None"
  shows "get_requests D E (req\<lparr>authorization := None\<rparr>) s
           = (status_json 200 (JArr (map request_json (requests s))), s)
       \<and> admin_all D E (req\<lparr>authorization := None\<rparr>) s
           = (status_json 200
                (JArr (map (\<lambda>r. JObj [(''id'', JNum (of_int (a_id r))),
                                       (''username'', JStr (a_username r)),
                                       (''role'', JStr (a_role r))]) (admin s))), s)
       \<and> get_requests D E req s = get_requests D E (req\<lparr>authorization := None\<rparr>) s
       \<and> admin_all D E req s = admin_all D E (req\<lparr>authorization := None\<rparr>) s"
  using assms
  by (simp add: get_requests_def admin_all_def handler_defs select_requests_def
      select_admin_def admin_json_def)

theorem list_all_unauthenticated_witness:
  "fault demo_call = None
 \<and> authorization (demo_request []) = None
 \<and> get_requests demo_deps demo_call (demo_request []) demo_db
     = (status_json 200
          (JArr [JObj [(''id'', JNum 2), (''username'', JStr ''alice''),
                       (''product_name'', JStr ''soap''), (''quantity'', JNum 3),
                       (''request_date'', JDate 1500), (''status'', JStr ''Pending'')]]), demo_db)
 \<and> admin_all demo_deps demo_call (demo_request []) demo_db
     = (status_json 200
          (JArr [JObj [(''id'', JNum 1), (''username'', JStr ''root''),
                       (''role'', JStr ''admin'')]]), demo_db)"
proof -
  have f: "fault demo_call = None" by (simp add: demo_call_def)
  have a: "authorization (demo_request []) = None" by (simp add: demo_request_def)
  have r: "demo_request []\<lparr>authorization := None\<rparr> = demo_request []"
    by (simp add: demo_request_def)
  from list_all_unauthenticated [OF f, of demo_deps "demo_request []" demo_db] f a r
  show ?thesis
    by (simp add: demo_db_def request_json_def null_or_def)
qed

text \<open>
  Claim C10, as amended. Admin login (\<^verbatim>\<open>POST /api/admin/login\<close>) checks no presence: no
  request at all is answered 400. When the store answers, a request whose username is
  missing is answered 401, and a request whose password is missing is answered 401
  provided no admin row has the given username.
\<close>

theorem admin_login_missing_fields:
  "status (fst (admin_login D E req s)) \<noteq> 400
 \<and> (fault E = None \<and> (field req ''username'' = JUndefined \<or> field req ''username'' = JNull) \<longrightarrow>
      admin_login D E req s
        = (status_json 401 (error_body ''Invalid username or password.''), s))
 \<and> (fault E = None \<and> (field req ''password'' = JUndefined \<or> field req ''password'' = JNull)
      \<and> prepareValue D (field req ''username'') = Some u
      \<and> u \<notin> set (map a_username (admin s)) \<longrightarrow>
      admin_login D E req s
        = (status_json 401 (error_body ''Invalid username or password.''), s))"
proof (intro conjI impI)
  show "status (fst (admin_login D E req s)) \<noteq> 400"
    by (auto simp: admin_login_def Let_def handler_defs select_admin_by_username_def
        split: sum.splits option.splits list.splits)
next
  assume "fault E = None \<and> (field req ''username'' = JUndefined \<or> field req ''username'' = JNull)"
  then show "admin_login D E req s
        = (status_json 401 (error_body ''Invalid username or password.''), s)"
    by (auto simp: admin_login_def Let_def pool_query_def select_admin_by_username_def
        prepareValue_def)
next
  assume h: "fault E = None \<and> (field req ''password'' = JUndefined \<or> field req ''password'' = JNull)
      \<and> prepareValue D (field req ''username'') = Some u
      \<and> u \<notin> set (map a_username (admin s))"
  then have "filter (\<lambda>r. a_username r = u) (admin s) = []"
    by (auto simp: filter_empty_conv)
  with h show "admin_login D E req s
        = (status_json 401 (error_body ''Invalid username or password.''), s)"
    by (simp add: admin_login_def Let_def pool_query_def select_admin_by_username_def)
qed

theorem admin_login_missing_fields_witness:
  "field (demo_request [(''password'', JStr ''4325'')]) ''username'' = JUndefined
 \<and> admin_login demo_deps demo_call (demo_request [(''password'', JStr ''4325'')]) demo_db
     = (status_json 401 (error_body ''Invalid username or password.''), demo_db)
 \<and> field (demo_request [(''username'', JStr ''nobody'')]) ''password'' = JUndefined
 \<and> admin_login demo_deps demo_call (demo_request [(''username'', JStr ''nobody'')]) demo_db
     = (status_json 401 (error_body ''Invalid username or password.''), demo_db)
 \<and> status (fst (admin_login demo_deps demo_call (demo_request []) demo_db)) \<noteq> 400"
proof -
  have u: "field (demo_request [(''password'', JStr ''4325'')]) ''username'' = JUndefined"
    by (simp add: demo_defs)
  have p: "field (demo_request [(''username'', JStr ''nobody'')]) ''password'' = JUndefined"
    by (simp add: demo_defs)
  have a: "admin_login demo_deps demo_call (demo_request [(''password'', JStr ''4325'')]) demo_db
     = (status_json 401 (error_body ''Invalid username or password.''), demo_db)"
    by (rule admin_login_missing_fields [THEN conjunct2, THEN conjunct1, rule_format])
       (simp add: demo_defs)
  have b: "admin_login demo_deps demo_call (demo_request [(''username'', JStr ''nobody'')]) demo_db
     = (status_json 401 (error_body ''Invalid username or password.''), demo_db)"
    by (rule admin_login_missing_fields [where u = "''nobody''", THEN conjunct2, THEN conjunct2,
          rule_format])
       (simp add: demo_defs prepareValue_def)
  have c: "status (fst (admin_login demo_deps demo_call (demo_request []) demo_db)) \<noteq> 400"
    by (rule admin_login_missing_fields [THEN conjunct1])
  from u a p b c show ?thesis by (intro conjI)
qed

text \<open>
  Claim C10 as written has every request with a missing password answered 401. On the
  concrete store, a request that names an existing admin and carries no password is
  answered 500: the hasher rejects the missing value and the handler's catch answers.
\<close>

theorem admin_login_missing_password_500:
  "field (demo_request [(''username'', JStr ''root'')]) ''password'' = JUndefined
   \<and> status (fst (admin_login demo_deps demo_call (demo_request [(''username'', JStr ''root'')])
        demo_db)) = 500"
  by (simp add: admin_login_def Let_def handler_defs demo_defs select_admin_by_username_def
      prepareValue_def bcrypt_compare_def)

end
